theory Spec2Isabelle
  imports Complex_Main
begin

section \<open>Common ground: exceptions and numpy scalars\<close>

text \<open>
  The Python exceptions that the modelled methods can raise.  The string carries the
  name the interpreter complains about (the attribute, the local variable, the keyword
  or the dictionary key).
\<close>

datatype error =
    AttributeError string
  | UnboundLocalError string
  | TypeError string
  | KeyError string
  | ValueError string
  | NotImplementedError string
  | IndexError
  | EOFError

text \<open>Sequencing of statements that may raise: the first exception ends the body.\<close>

definition bnd :: "error + 'a \<Rightarrow> ('a \<Rightarrow> error + 'b) \<Rightarrow> error + 'b" where
  "bnd m f = (case m of Inl e \<Rightarrow> Inl e | Inr x \<Rightarrow> f x)"

text \<open>
  A numpy \<^verbatim>\<open>float64\<close>: a finite number, an infinity or NaN.  The operations of
  this section compute on finite values exactly; rounding to a double is added where a
  statement depends on it, in the section on unit conversion.  The special values follow
  IEEE 754, which is what decides whether a numpy call raises or returns NaN: numpy does
  not raise on a division by zero or on an argument outside a function's domain, it
  returns an infinity or NaN (and emits a \<^verbatim>\<open>RuntimeWarning\<close>).
\<close>

datatype npfloat = Fin real | PInf | NInf | NaN

fun np_neg :: "npfloat \<Rightarrow> npfloat" where
  "np_neg (Fin x) = Fin (- x)"
| "np_neg PInf = NInf"
| "np_neg NInf = PInf"
| "np_neg NaN = NaN"

fun np_add :: "npfloat \<Rightarrow> npfloat \<Rightarrow> npfloat" where
  "np_add NaN _ = NaN"
| "np_add _ NaN = NaN"
| "np_add (Fin x) (Fin y) = Fin (x + y)"
| "np_add PInf NInf = NaN"
| "np_add NInf PInf = NaN"
| "np_add PInf _ = PInf"
| "np_add _ PInf = PInf"
| "np_add NInf _ = NInf"
| "np_add _ NInf = NInf"

definition np_sub :: "npfloat \<Rightarrow> npfloat \<Rightarrow> npfloat" where
  "np_sub a b = np_add a (np_neg b)"

text \<open>The sign of a value that is not NaN, and the infinity of a given sign.\<close>

fun np_sign :: "npfloat \<Rightarrow> real" where
  "np_sign (Fin x) = sgn x"
| "np_sign PInf = 1"
| "np_sign NInf = - 1"
| "np_sign NaN = 0"

definition np_inf :: "real \<Rightarrow> npfloat" where
  "np_inf s = (if 0 < s then PInf else NInf)"

fun np_mul :: "npfloat \<Rightarrow> npfloat \<Rightarrow> npfloat" where
  "np_mul NaN _ = NaN"
| "np_mul _ NaN = NaN"
| "np_mul (Fin x) (Fin y) = Fin (x * y)"
| "np_mul a b =
     (if np_sign a = 0 \<or> np_sign b = 0 then NaN else np_inf (np_sign a * np_sign b))"

fun np_div :: "npfloat \<Rightarrow> npfloat \<Rightarrow> npfloat" where
  "np_div NaN _ = NaN"
| "np_div _ NaN = NaN"
| "np_div (Fin x) (Fin y) =
     (if y = 0 then (if x = 0 then NaN else np_inf (sgn x)) else Fin (x / y))"
| "np_div (Fin x) _ = Fin 0"
| "np_div a (Fin y) = np_inf (np_sign a * (if y < 0 then - 1 else 1))"
| "np_div _ _ = NaN"

fun np_abs :: "npfloat \<Rightarrow> npfloat" where
  "np_abs (Fin x) = Fin \<bar>x\<bar>"
| "np_abs PInf = PInf"
| "np_abs NInf = PInf"
| "np_abs NaN = NaN"

text \<open>\<^verbatim>\<open>a > b\<close>: every comparison with NaN is false.\<close>

fun np_gt :: "npfloat \<Rightarrow> npfloat \<Rightarrow> bool" where
  "np_gt NaN _ = False"
| "np_gt _ NaN = False"
| "np_gt (Fin x) (Fin y) = (y < x)"
| "np_gt PInf PInf = False"
| "np_gt PInf _ = True"
| "np_gt _ PInf = False"
| "np_gt NInf _ = False"
| "np_gt _ NInf = True"

fun np_sin :: "npfloat \<Rightarrow> npfloat" where
  "np_sin (Fin x) = Fin (sin x)"
| "np_sin _ = NaN"

fun np_cos :: "npfloat \<Rightarrow> npfloat" where
  "np_cos (Fin x) = Fin (cos x)"
| "np_cos _ = NaN"

text \<open>
  \<^verbatim>\<open>np.tan\<close>.  At an exact pole the tangent is unbounded; the model returns the
  infinity with the sign of the sine there.  (No double is an exact pole, where numpy
  returns a number of magnitude about 1e16.)
\<close>

fun np_tan :: "npfloat \<Rightarrow> npfloat" where
  "np_tan (Fin x) = (if cos x = 0 then np_inf (sin x) else Fin (tan x))"
| "np_tan _ = NaN"

text \<open>\<^verbatim>\<open>np.arcsin\<close>: NaN outside of [-1, 1], never an exception.\<close>

fun np_arcsin :: "npfloat \<Rightarrow> npfloat" where
  "np_arcsin (Fin x) = (if - 1 \<le> x \<and> x \<le> 1 then Fin (arcsin x) else NaN)"
| "np_arcsin _ = NaN"

fun np_arctan :: "npfloat \<Rightarrow> npfloat" where
  "np_arctan (Fin x) = Fin (arctan x)"
| "np_arctan PInf = Fin (pi / 2)"
| "np_arctan NInf = Fin (- (pi / 2))"
| "np_arctan NaN = NaN"

section \<open>gon.py: the Kappa stage\<close>

text \<open>
  The three axis motors are external collaborators: \<^verbatim>\<open>wm()\<close> reads a position,
  \<^verbatim>\<open>mv\<close>, \<^verbatim>\<open>wait\<close> and \<^verbatim>\<open>stop\<close> are commands.  The model keeps the positions
  the motors report and a log of the commands sent to them, in order.  The answers the
  operator will type at \<^verbatim>\<open>input()\<close> are a list that is consumed from the front.
\<close>

datatype axis = Eta | Kappa | Phi

datatype command = Mv axis npfloat | Wait axis | Stop axis

record kappa_dev =
  eta_wm :: real
  kappa_wm :: real
  phi_wm :: real
  eta_max_step :: real
  kappa_max_step :: real
  phi_max_step :: real
  kappa_ang :: real
  answers :: "string list"
  issued :: "command list"

text \<open>
  The names that class \<^verbatim>\<open>Kappa\<close> gives its instances: its components, the
  attributes its constructor sets, its properties and its methods (gon.py, lines 292 to
  562).  Its base classes define none of the other names that the methods below look up
  on \<^verbatim>\<open>self\<close>, so the lookup of such a name raises \<^verbatim>\<open>AttributeError\<close>.
\<close>

definition Kappa_attrs :: "string list" where
  "Kappa_attrs =
    [''x'', ''y'', ''z'', ''eta'', ''kappa'', ''phi'', ''e_eta'', ''e_chi'', ''e_phi'',
     ''tab_component_names'', ''tab_whitelist'',
     ''_prefix_x'', ''_prefix_y'', ''_prefix_z'', ''_prefix_eta'', ''_prefix_kappa'',
     ''_prefix_phi'', ''eta_max_step'', ''kappa_max_step'', ''phi_max_step'', ''kappa_ang'',
     ''stop'', ''wait'', ''eta_position'', ''kappa_position'', ''phi_position'',
     ''e_eta_coord'', ''e_chi_coord'', ''e_phi_coord'', ''k_to_e'', ''e_to_k'',
     ''mv_e_eta'', ''mv_e_chi'', ''mv_e_phi'', ''check_motor_step'']"

definition getattr :: "string \<Rightarrow> (error + 'a) \<Rightarrow> error + 'a" where
  "getattr name found = (if name \<in> set Kappa_attrs then found else Inl (AttributeError name))"

text \<open>
  A property getter that raises \<^verbatim>\<open>AttributeError\<close> makes Python fall back to
  \<^verbatim>\<open>__getattr__\<close>, which for a device raises \<^verbatim>\<open>AttributeError\<close> with the
  name of the property itself.  Every other outcome of the getter is the outcome of the
  property.
\<close>

definition property :: "string \<Rightarrow> (error + 'a) \<Rightarrow> error + 'a" where
  "property name getter =
    (case getter of Inl (AttributeError _) \<Rightarrow> Inl (AttributeError name) | r \<Rightarrow> r)"

text \<open>
  The position properties (lines 338 to 351).  \<^verbatim>\<open>kappa_position\<close> reads
  \<^verbatim>\<open>self.kap.wm()\<close>, while the component is called \<^verbatim>\<open>kappa\<close>.
\<close>

definition eta_position :: "kappa_dev \<Rightarrow> error + real" where
  "eta_position st = property ''eta_position'' (getattr ''eta'' (Inr (eta_wm st)))"

definition kappa_position :: "kappa_dev \<Rightarrow> error + real" where
  "kappa_position st = property ''kappa_position'' (getattr ''kap'' (Inr (kappa_wm st)))"

definition phi_position :: "kappa_dev \<Rightarrow> error + real" where
  "phi_position st = property ''phi_position'' (getattr ''phi'' (Inr (phi_wm st)))"

text \<open>Degrees to radians and back, in the order the source multiplies and divides.\<close>

definition rad :: "npfloat \<Rightarrow> npfloat" where
  "rad x = np_div (np_mul x (Fin pi)) (Fin 180)"

definition deg :: "npfloat \<Rightarrow> npfloat" where
  "deg x = np_div (np_mul x (Fin 180)) (Fin pi)"

text \<open>
  \<^verbatim>\<open>k_to_e\<close>, lines 398 to 409: the arithmetic, once \<^verbatim>\<open>eta\<close>, \<^verbatim>\<open>kap\<close> and
  \<^verbatim>\<open>phi\<close> are bound.
\<close>

definition k_to_e_calc :: "real \<Rightarrow> npfloat \<Rightarrow> npfloat \<Rightarrow> npfloat \<Rightarrow> npfloat \<times> npfloat \<times> npfloat" where
  "k_to_e_calc kang eta kap phi =
    (let kappa_ang = rad (Fin kang);
         delta = np_arctan (np_mul (np_tan (np_div (rad kap) (Fin 2))) (np_cos kappa_ang));
         e_eta = np_sub (rad (np_neg eta)) delta;
         e_chi = np_mul (Fin 2) (np_arcsin (np_mul (np_sin (np_div (rad kap) (Fin 2))) (np_sin kappa_ang)));
         e_phi = np_sub (rad phi) delta
     in (deg e_eta, deg e_chi, deg e_phi))"

text \<open>
  \<^verbatim>\<open>k_to_e\<close>, lines 371 to 409.  A parameter left as \<^verbatim>\<open>None\<close> is replaced by the
  live value (\<^verbatim>\<open>not v and v != 0\<close> holds of \<^verbatim>\<open>None\<close> and of no number).  The live
  kappa is stored in the local \<^verbatim>\<open>kap\<close>, the live phi is negated; a kappa that the
  caller passes is never copied into \<^verbatim>\<open>kap\<close>, which the arithmetic reads: the
  local is then unbound.
\<close>

definition k_to_e ::
  "kappa_dev \<Rightarrow> npfloat option \<Rightarrow> npfloat option \<Rightarrow> npfloat option \<Rightarrow> error + npfloat \<times> npfloat \<times> npfloat" where
  "k_to_e st eta kappa phi =
    bnd (case eta of None \<Rightarrow> map_sum id Fin (eta_position st) | Some v \<Rightarrow> Inr v) (\<lambda>eta.
    bnd (case kappa of None \<Rightarrow> map_sum id (\<lambda>v. Some (Fin v)) (kappa_position st) | Some v \<Rightarrow> Inr None) (\<lambda>kap.
    bnd (case phi of None \<Rightarrow> map_sum id (\<lambda>v. Fin (- v)) (phi_position st) | Some v \<Rightarrow> Inr v) (\<lambda>phi.
    bnd (case kap of None \<Rightarrow> Inl (UnboundLocalError ''kap'') | Some v \<Rightarrow> Inr v) (\<lambda>kap.
    Inr (k_to_e_calc (kappa_ang st) eta kap phi)))))"

text \<open>The coordinate properties (lines 353 to 369): each calls \<^verbatim>\<open>k_to_e()\<close>.\<close>

definition e_eta_coord :: "kappa_dev \<Rightarrow> error + npfloat" where
  "e_eta_coord st =
    property ''e_eta_coord'' (bnd (k_to_e st None None None) (\<lambda>(e_eta, e_chi, e_phi). Inr e_eta))"

definition e_chi_coord :: "kappa_dev \<Rightarrow> error + npfloat" where
  "e_chi_coord st =
    property ''e_chi_coord'' (bnd (k_to_e st None None None) (\<lambda>(e_eta, e_chi, e_phi). Inr e_chi))"

definition e_phi_coord :: "kappa_dev \<Rightarrow> error + npfloat" where
  "e_phi_coord st =
    property ''e_phi_coord'' (bnd (k_to_e st None None None) (\<lambda>(e_eta, e_chi, e_phi). Inr e_phi))"

text \<open>\<^verbatim>\<open>e_to_k\<close>, lines 435 to 447: the arithmetic.\<close>

definition e_to_k_calc :: "real \<Rightarrow> npfloat \<Rightarrow> npfloat \<Rightarrow> npfloat \<Rightarrow> npfloat \<times> npfloat \<times> npfloat" where
  "e_to_k_calc kang e_eta e_chi e_phi =
    (let kappa_ang = rad (Fin kang);
         delta = np_arcsin (np_div (np_neg (np_tan (np_div (rad e_chi) (Fin 2)))) (np_tan kappa_ang));
         k_eta = np_neg (np_sub (rad e_eta) delta);
         k_kap = np_mul (Fin 2) (np_arcsin (np_div (np_sin (np_div (rad e_chi) (Fin 2))) (np_sin kappa_ang)));
         k_phi = np_sub (rad e_phi) delta
     in (deg k_eta, deg k_kap, deg (np_neg k_phi)))"

text \<open>\<^verbatim>\<open>e_to_k\<close>, lines 411 to 447.\<close>

definition e_to_k ::
  "kappa_dev \<Rightarrow> npfloat option \<Rightarrow> npfloat option \<Rightarrow> npfloat option \<Rightarrow> error + npfloat \<times> npfloat \<times> npfloat" where
  "e_to_k st e_eta e_chi e_phi =
    bnd (case e_eta of None \<Rightarrow> e_eta_coord st | Some v \<Rightarrow> Inr v) (\<lambda>e_eta.
    bnd (case e_chi of None \<Rightarrow> e_chi_coord st | Some v \<Rightarrow> Inr v) (\<lambda>e_chi.
    bnd (case e_phi of None \<Rightarrow> e_phi_coord st | Some v \<Rightarrow> Inr v) (\<lambda>e_phi.
    Inr (e_to_k_calc (kappa_ang st) e_eta e_chi e_phi))))"

text \<open>
  A call of \<^verbatim>\<open>e_to_k\<close> with keyword arguments.  Its parameters are \<^verbatim>\<open>e_eta\<close>,
  \<^verbatim>\<open>e_chi\<close> and \<^verbatim>\<open>e_phi\<close>; any other keyword raises \<^verbatim>\<open>TypeError\<close> before the
  body runs.
\<close>

definition e_to_k_kw :: "kappa_dev \<Rightarrow> (string \<times> npfloat) list \<Rightarrow> error + npfloat \<times> npfloat \<times> npfloat" where
  "e_to_k_kw st kw =
    (case filter (\<lambda>k. k \<notin> set [''e_eta'', ''e_chi'', ''e_phi'']) (map fst kw) of
       k # _ \<Rightarrow> Inl (TypeError k)
     | [] \<Rightarrow> e_to_k st (map_of kw ''e_eta'') (map_of kw ''e_chi'') (map_of kw ''e_phi''))"

text \<open>
  \<^verbatim>\<open>check_motor_step\<close>, lines 540 to 562: the decision, once the three steps are
  known.  The table is only logged.  \<^verbatim>\<open>input()\<close> takes the next answer of the
  operator, and raises \<^verbatim>\<open>EOFError\<close> when there is none.
\<close>

definition confirm_steps ::
  "kappa_dev \<Rightarrow> npfloat \<Rightarrow> npfloat \<Rightarrow> npfloat \<Rightarrow> (error + bool) \<times> kappa_dev" where
  "confirm_steps st eta_step kappa_step phi_step =
    (let is_eta_above_max = np_gt eta_step (Fin (eta_max_step st));
         is_kappa_above_max = np_gt kappa_step (Fin (kappa_max_step st));
         is_phi_above_max = np_gt phi_step (Fin (phi_max_step st))
     in if is_eta_above_max \<or> is_kappa_above_max \<or> is_phi_above_max
        then (case answers st of
                [] \<Rightarrow> (Inl EOFError, st)
              | a # rest \<Rightarrow> (Inr (a = ''y''), st\<lparr>answers := rest\<rparr>))
        else (Inr True, st))"

text \<open>
  \<^verbatim>\<open>check_motor_step\<close>, lines 513 to 562.  The kappa step reads
  \<^verbatim>\<open>self.kappa_postion\<close>; the property is called \<^verbatim>\<open>kappa_position\<close>.
\<close>

definition check_motor_step ::
  "kappa_dev \<Rightarrow> npfloat \<Rightarrow> npfloat \<Rightarrow> npfloat \<Rightarrow> (error + bool) \<times> kappa_dev" where
  "check_motor_step st eta kappa phi =
    (case bnd (eta_position st) (\<lambda>eta_pos.
          bnd (getattr ''kappa_postion'' (kappa_position st)) (\<lambda>kappa_pos.
          bnd (phi_position st) (\<lambda>phi_pos.
          Inr (np_abs (np_sub eta (Fin eta_pos)),
               np_abs (np_sub kappa (Fin kappa_pos)),
               np_abs (np_sub phi (Fin phi_pos)))))) of
       Inl e \<Rightarrow> (Inl e, st)
     | Inr (eta_step, kappa_step, phi_step) \<Rightarrow> confirm_steps st eta_step kappa_step phi_step)"

text \<open>
  The three axis moves of lines 462 to 465 (and 485 to 488), then \<^verbatim>\<open>self.wait()\<close>
  (lines 332 to 336); \<^verbatim>\<open>mv_e_phi\<close> (lines 506 to 508) does not wait.
\<close>

definition move_axes :: "kappa_dev \<Rightarrow> npfloat \<Rightarrow> npfloat \<Rightarrow> npfloat \<Rightarrow> kappa_dev" where
  "move_axes st k_eta k_kap k_phi =
    st\<lparr>issued := issued st @ [Mv Eta k_eta, Mv Kappa k_kap, Mv Phi k_phi]\<rparr>"

definition wait :: "kappa_dev \<Rightarrow> kappa_dev" where
  "wait st = st\<lparr>issued := issued st @ [Wait Eta, Wait Kappa, Wait Phi]\<rparr>"

text \<open>\<^verbatim>\<open>stop\<close>, lines 326 to 330, which the handlers of \<^verbatim>\<open>KeyboardInterrupt\<close> call.\<close>

definition stop :: "kappa_dev \<Rightarrow> kappa_dev" where
  "stop st = st\<lparr>issued := issued st @ [Stop Eta, Stop Kappa, Stop Phi]\<rparr>"

text \<open>
  \<^verbatim>\<open>mv_e_eta\<close>, lines 449 to 468.  Only \<^verbatim>\<open>KeyboardInterrupt\<close> is caught; it comes
  from outside the program and is not modelled.  Every other exception leaves the
  method.
\<close>

definition mv_e_eta :: "kappa_dev \<Rightarrow> npfloat \<Rightarrow> (error + unit) \<times> kappa_dev" where
  "mv_e_eta st v =
    (case getattr ''e_to_k'' (e_to_k_kw st [(''eta'', v)]) of
       Inl e \<Rightarrow> (Inl e, st)
     | Inr (k_eta, k_kap, k_phi) \<Rightarrow>
        (case getattr ''check_motor_step'' (Inr ()) of
           Inl e \<Rightarrow> (Inl e, st)
         | Inr _ \<Rightarrow>
            (case check_motor_step st k_eta k_kap k_phi of
               (Inl e, st') \<Rightarrow> (Inl e, st')
             | (Inr move_on, st') \<Rightarrow>
                 if move_on then (Inr (), wait (move_axes st' k_eta k_kap k_phi))
                 else (Inr (), st'))))"

text \<open>
  \<^verbatim>\<open>mv_e_chi\<close>, lines 470 to 491.  Lines 480 and 481 replace a target of zero
  before anything else is done with it.
\<close>

definition mv_e_chi_value :: "npfloat \<Rightarrow> npfloat" where
  "mv_e_chi_value v = (if v = Fin 0 then Fin (10 / 10 ^ 9) else v)"

definition mv_e_chi :: "kappa_dev \<Rightarrow> npfloat \<Rightarrow> (error + unit) \<times> kappa_dev" where
  "mv_e_chi st v =
    (case getattr ''e_to_k'' (e_to_k_kw st [(''chi'', mv_e_chi_value v)]) of
       Inl e \<Rightarrow> (Inl e, st)
     | Inr (k_eta, k_kap, k_phi) \<Rightarrow>
        (case getattr ''checkMotorStep'' (Inr ()) of
           Inl e \<Rightarrow> (Inl e, st)
         | Inr _ \<Rightarrow>
            (case check_motor_step st k_eta k_kap k_phi of
               (Inl e, st') \<Rightarrow> (Inl e, st')
             | (Inr move_on, st') \<Rightarrow>
                 if move_on then (Inr (), wait (move_axes st' k_eta k_kap k_phi))
                 else (Inr (), st'))))"

text \<open>\<^verbatim>\<open>mv_e_phi\<close>, lines 493 to 511: the conversion is called as \<^verbatim>\<open>self.E2K\<close>.\<close>

definition mv_e_phi :: "kappa_dev \<Rightarrow> npfloat \<Rightarrow> (error + unit) \<times> kappa_dev" where
  "mv_e_phi st v =
    (case getattr ''E2K'' (e_to_k_kw st [(''phi'', v)]) of
       Inl e \<Rightarrow> (Inl e, st)
     | Inr (k_eta, k_kap, k_phi) \<Rightarrow>
        (case getattr ''check_motor_step'' (Inr ()) of
           Inl e \<Rightarrow> (Inl e, st)
         | Inr _ \<Rightarrow>
            (case check_motor_step st k_eta k_kap k_phi of
               (Inl e, st') \<Rightarrow> (Inl e, st')
             | (Inr move_on, st') \<Rightarrow>
                 if move_on then (Inr (), move_axes st' k_eta k_kap k_phi)
                 else (Inr (), st'))))"

section \<open>signal.py: AggregateSignal\<close>

text \<open>
  An aggregate signal over source signals of type \<open>'s\<close> with values of type \<open>'v\<close>; its
  own value has type \<open>'r\<close>.  Beside the attributes of the class (\<^verbatim>\<open>_cache\<close>,
  \<^verbatim>\<open>_has_subscribed\<close>, \<^verbatim>\<open>_sub_signals\<close>, \<^verbatim>\<open>_readback\<close>,
  \<^verbatim>\<open>_update_only_on_change\<close>) the state holds what the library around it keeps and
  what the outside observes:
  \<^item> \<open>callbacks\<close>: the callbacks registered on the aggregate, with their event type;
  \<^item> \<open>attached\<close>: one entry for every \<^verbatim>\<open>signal.subscribe(self._run_sub_value, run=False)\<close>;
  \<^item> \<open>reads\<close>: one entry for every \<^verbatim>\<open>signal.get()\<close> on a source signal;
  \<^item> \<open>notified\<close>: one entry (callback, value, old value) for every callback run.
\<close>

record ('s, 'v, 'r) aggregate =
  cache :: "'s \<rightharpoonup> 'v"
  has_subscribed :: bool
  sub_signals :: "'s list"
  readback :: 'r
  update_only_on_change :: bool
  callbacks :: "(string \<times> nat) list"
  attached :: "'s list"
  reads :: "'s list"
  notified :: "(nat \<times> 'r \<times> 'r) list"

definition SUB_VALUE :: string where
  "SUB_VALUE = ''value''"

text \<open>
  \<^verbatim>\<open>_calc_readback\<close> (lines 140 to 151) is what a subclass overrides; the functions
  below take it as the parameter \<open>calc\<close>.  The one of the base class raises.
\<close>

definition calc_readback_base :: "('s \<rightharpoonup> 'v) \<Rightarrow> error + 'r" where
  "calc_readback_base c = Inl (NotImplementedError ''Subclasses must implement _calc_readback'')"

text \<open>\<^verbatim>\<open>_update_state\<close>, lines 160 to 163.\<close>

definition update_state ::
  "(('s \<rightharpoonup> 'v) \<Rightarrow> error + 'r) \<Rightarrow> ('s, 'v, 'r) aggregate \<Rightarrow> (error + unit) \<times> ('s, 'v, 'r) aggregate" where
  "update_state calc st =
    (case calc (cache st) of
       Inl e \<Rightarrow> (Inl e, st)
     | Inr r \<Rightarrow> (Inr (), st\<lparr>readback := r\<rparr>))"

text \<open>\<^verbatim>\<open>_insert_value\<close>, lines 153 to 158.\<close>

definition insert_value ::
  "(('s \<rightharpoonup> 'v) \<Rightarrow> error + 'r) \<Rightarrow> ('s, 'v, 'r) aggregate \<Rightarrow> 's \<Rightarrow> 'v
    \<Rightarrow> (error + 'r) \<times> ('s, 'v, 'r) aggregate" where
  "insert_value calc st signal v =
    (case update_state calc (st\<lparr>cache := (cache st)(signal \<mapsto> v)\<rparr>) of
       (Inl e, st') \<Rightarrow> (Inl e, st')
     | (Inr _, st') \<Rightarrow> (Inr (readback st'), st'))"

text \<open>
  \<^verbatim>\<open>get\<close>, lines 165 to 171.  \<open>src\<close> gives the value that a source signal returns
  when it is read.
\<close>

definition get ::
  "(('s \<rightharpoonup> 'v) \<Rightarrow> error + 'r) \<Rightarrow> ('s \<Rightarrow> 'v) \<Rightarrow> ('s, 'v, 'r) aggregate
    \<Rightarrow> (error + 'r) \<times> ('s, 'v, 'r) aggregate" where
  "get calc src st =
    (case update_state calc
            (foldl (\<lambda>s signal. s\<lparr>cache := (cache s)(signal \<mapsto> src signal),
                                   reads := reads s @ [signal]\<rparr>)
               st (sub_signals st)) of
       (Inl e, st') \<Rightarrow> (Inl e, st')
     | (Inr _, st') \<Rightarrow> (Inr (readback st'), st'))"

text \<open>
  \<^verbatim>\<open>super().subscribe\<close> and \<^verbatim>\<open>_run_subs\<close> belong to the library the class is built
  on.  The first registers the callback under the event type, the default being the
  value event, and returns an identifier (that it may replay the last event to the new
  callback is left out); the second runs the callbacks registered for an event type, in
  the order of their registration.
\<close>

definition super_subscribe ::
  "('s, 'v, 'r) aggregate \<Rightarrow> nat \<Rightarrow> string option \<Rightarrow> nat \<times> ('s, 'v, 'r) aggregate" where
  "super_subscribe st cb event_type =
    (length (callbacks st),
     st\<lparr>callbacks := callbacks st @
          [(case event_type of None \<Rightarrow> SUB_VALUE | Some e \<Rightarrow> e, cb)]\<rparr>)"

definition observers :: "('s, 'v, 'r) aggregate \<Rightarrow> string \<Rightarrow> nat list" where
  "observers st sub_type = map snd (filter (\<lambda>c. fst c = sub_type) (callbacks st))"

definition run_subs ::
  "('s, 'v, 'r) aggregate \<Rightarrow> string \<Rightarrow> 'r \<Rightarrow> 'r \<Rightarrow> ('s, 'v, 'r) aggregate" where
  "run_subs st sub_type v old_value =
    st\<lparr>notified := notified st @ map (\<lambda>cb. (cb, v, old_value)) (observers st sub_type)\<rparr>"

text \<open>\<^verbatim>\<open>subscribe\<close>, lines 176 to 189.\<close>

definition subscribe ::
  "(('s \<rightharpoonup> 'v) \<Rightarrow> error + 'r) \<Rightarrow> ('s \<Rightarrow> 'v) \<Rightarrow> ('s, 'v, 'r) aggregate \<Rightarrow> nat \<Rightarrow> string option
    \<Rightarrow> (error + nat) \<times> ('s, 'v, 'r) aggregate" where
  "subscribe calc src st cb event_type =
    (case super_subscribe st cb event_type of (cid, st1) \<Rightarrow>
       if (event_type = None \<or> event_type = Some SUB_VALUE) \<and> \<not> has_subscribed st1
       then (case get calc src
                    (foldl (\<lambda>s signal. s\<lparr>attached := attached s @ [signal]\<rparr>)
                       st1 (sub_signals st1)) of
               (Inl e, st2) \<Rightarrow> (Inl e, st2)
             | (Inr _, st2) \<Rightarrow> (Inr cid, st2))
       else (Inr cid, st1))"

text \<open>
  The keyword arguments of a value callback, as the source signal passes them.  A key
  that is absent is \<open>None\<close>; \<^verbatim>\<open>pop\<close> and the subscript raise \<^verbatim>\<open>KeyError\<close> on it.
\<close>

record ('s, 'v) sub_kwargs =
  kw_sub_type :: "string option"
  kw_obj :: "'s option"
  kw_old_value :: "'v option"
  kw_value :: "'v option"

definition lookup_kw :: "string \<Rightarrow> 'a option \<Rightarrow> error + 'a" where
  "lookup_kw key v = (case v of None \<Rightarrow> Inl (KeyError key) | Some x \<Rightarrow> Inr x)"

text \<open>
  \<^verbatim>\<open>_run_sub_value\<close>, lines 191 to 203.  \<^verbatim>\<open>!=\<close> on the derived values is the
  disequality of \<open>'r\<close>.
\<close>

definition run_sub_value ::
  "(('s \<rightharpoonup> 'v) \<Rightarrow> error + 'r) \<Rightarrow> ('s, 'v, 'r) aggregate \<Rightarrow> ('s, 'v) sub_kwargs
    \<Rightarrow> (error + unit) \<times> ('s, 'v, 'r) aggregate" where
  "run_sub_value calc st kwargs =
    (case bnd (lookup_kw ''sub_type'' (kw_sub_type kwargs)) (\<lambda>_.
          bnd (lookup_kw ''obj'' (kw_obj kwargs)) (\<lambda>sig.
          bnd (lookup_kw ''old_value'' (kw_old_value kwargs)) (\<lambda>_.
          bnd (lookup_kw ''value'' (kw_value kwargs)) (\<lambda>v. Inr (sig, v))))) of
       Inl e \<Rightarrow> (Inl e, st)
     | Inr (sig, v) \<Rightarrow>
        (let old_value = readback st in
         case insert_value calc st sig v of
           (Inl e, st') \<Rightarrow> (Inl e, st')
         | (Inr v', st') \<Rightarrow>
             if v' \<noteq> old_value \<or> \<not> update_only_on_change st'
             then (Inr (), run_subs st' SUB_VALUE v' old_value)
             else (Inr (), st')))"

section \<open>signal.py: AvgSignal\<close>

text \<open>
  The buffer \<^verbatim>\<open>self.values\<close> is an array of doubles; \<open>puts\<close> is the list of values
  handed to \<^verbatim>\<open>self.put\<close>, the last one being the published value.
\<close>

record avg_signal =
  avg :: int
  index :: nat
  values_buf :: "npfloat list"
  puts :: "npfloat list"


text \<open>
  \<^verbatim>\<open>np.nanmean\<close>: the sum of the entries that are not NaN over their number; NaN when
  there is none.
\<close>

definition nanmean :: "npfloat list \<Rightarrow> npfloat" where
  "nanmean vs =
    (let xs = filter (\<lambda>v. v \<noteq> NaN) vs
     in if xs = [] then NaN else np_div (foldl np_add (Fin 0) xs) (Fin (real (length xs))))"

text \<open>
  \<^verbatim>\<open>_update_avg\<close>, lines 266 to 272.  Writing at an index outside of the array
  raises \<^verbatim>\<open>IndexError\<close>.
\<close>

definition update_avg :: "avg_signal \<Rightarrow> npfloat \<Rightarrow> error + avg_signal" where
  "update_avg st v =
    (if index st < length (values_buf st)
     then (let vs = (values_buf st)[index st := v]
           in Inr (st\<lparr>values_buf := vs,
                      index := (index st + 1) mod length vs,
                      puts := puts st @ [nanmean vs]\<rparr>))
     else Inl IndexError)"

text \<open>The source signal delivers one update after the other.\<close>

fun feed :: "avg_signal \<Rightarrow> npfloat list \<Rightarrow> error + avg_signal" where
  "feed st [] = Inr st"
| "feed st (v # vs) = bnd (update_avg st v) (\<lambda>st'. feed st' vs)"

section \<open>signal.py: UnitConversionDerivedSignal\<close>

text \<open>
  The offset is added and subtracted in double arithmetic, and the claim about the two
  conversions is a claim about its rounding error, so rounding is part of the model
  here: the result of an operation on doubles is the exact result rounded to the nearest
  double, ties to the even significand (IEEE 754, binary64: 53 bits of significand,
  least exponent of the unit in the last place -1074, overflow to an infinity from
  \<open>2 ^ 1024\<close> on).
\<close>

definition rne :: "real \<Rightarrow> int" where
  "rne q =
    (let f = \<lfloor>q\<rfloor>; d = q - of_int f
     in if d < 1 / 2 then f else if 1 / 2 < d then f + 1 else if even f then f else f + 1)"

definition ulp :: "real \<Rightarrow> real" where
  "ulp r = 2 powr of_int (max (\<lfloor>log 2 \<bar>r\<bar>\<rfloor> - 52) (- 1074))"

definition fl :: "real \<Rightarrow> real" where
  "fl r = (if r = 0 then 0 else of_int (rne (r / ulp r)) * ulp r)"

fun py_round :: "npfloat \<Rightarrow> npfloat" where
  "py_round (Fin r) = (if 2 ^ 1024 \<le> \<bar>fl r\<bar> then np_inf r else Fin (fl r))"
| "py_round v = v"

definition py_add :: "npfloat \<Rightarrow> npfloat \<Rightarrow> npfloat" where
  "py_add a b = py_round (np_add a b)"

definition py_sub :: "npfloat \<Rightarrow> npfloat \<Rightarrow> npfloat" where
  "py_sub a b = py_round (np_sub a b)"

text \<open>A double is a finite value that rounding leaves alone.\<close>

definition is_double :: "real \<Rightarrow> bool" where
  "is_double r = (py_round (Fin r) = Fin r)"

text \<open>
  The signal: its units and the user offset, \<open>None\<close> for Python's \<^verbatim>\<open>None\<close>.
  \<^verbatim>\<open>convert_unit\<close> comes from the module \<^verbatim>\<open>utils\<close> and is the parameter
  \<open>convert_unit\<close> of the two conversions: value, unit of the value, unit wanted.
\<close>

record unit_signal =
  derived_units :: string
  original_units :: "string option"
  user_offset :: "npfloat option"

text \<open>\<^verbatim>\<open>forward\<close>, lines 362 to 367, and \<^verbatim>\<open>inverse\<close>, lines 369 to 374.\<close>

definition forward ::
  "(npfloat \<Rightarrow> string option \<Rightarrow> string option \<Rightarrow> error + npfloat) \<Rightarrow> unit_signal \<Rightarrow> npfloat
    \<Rightarrow> error + npfloat" where
  "forward convert_unit st v =
    (case user_offset st of
       None \<Rightarrow> Inl (ValueError ''must be set to a non-None value.'')
     | Some off \<Rightarrow> convert_unit (py_sub v off) (Some (derived_units st)) (original_units st))"

definition inverse_conv ::
  "(npfloat \<Rightarrow> string option \<Rightarrow> string option \<Rightarrow> error + npfloat) \<Rightarrow> unit_signal \<Rightarrow> npfloat
    \<Rightarrow> error + npfloat" where
  "inverse_conv convert_unit st v =
    (case user_offset st of
       None \<Rightarrow> Inl (ValueError ''must be set to a non-None value.'')
     | Some off \<Rightarrow>
         bnd (convert_unit v (original_units st) (Some (derived_units st)))
           (\<lambda>c. Inr (py_add c off)))"

section \<open>Instances and vocabulary of the statements\<close>

text \<open>
  An aggregate of two source signals, numbered 0 and 1, whose derived value is the cached
  value of signal 0 (and 0 while there is none): before any subscription, and later, with
  a full cache, two value callbacks (7 and 8) and one callback for another event.
\<close>

definition calc0 :: "(nat \<rightharpoonup> int) \<Rightarrow> error + int" where
  "calc0 c = Inr (case c 0 of None \<Rightarrow> 0 | Some a \<Rightarrow> a)"

definition agg0 :: "(nat, int, int) aggregate" where
  "agg0 = \<lparr>cache = Map.empty, has_subscribed = False, sub_signals = [0, 1], readback = 0,
     update_only_on_change = True, callbacks = [], attached = [], reads = [], notified = []\<rparr>"

definition agg1 :: "(nat, int, int) aggregate" where
  "agg1 = \<lparr>cache = [0 \<mapsto> 1, 1 \<mapsto> 2], has_subscribed = False, sub_signals = [0, 1],
     readback = 1, update_only_on_change = True,
     callbacks = [(''value'', 7), (''meta'', 9), (''value'', 8)],
     attached = [0, 1], reads = [0, 1], notified = []\<rparr>"

text \<open>The arithmetic mean of a list of samples, and the last \<open>n\<close> samples of a list.\<close>

definition mean :: "real list \<Rightarrow> real" where
  "mean ys = sum_list ys / real (length ys)"



text \<open>
  A conversion primitive round-trips between two units when converting there and back
  gives the value back.
\<close>

definition round_trips ::
  "(npfloat \<Rightarrow> string option \<Rightarrow> string option \<Rightarrow> error + npfloat)
    \<Rightarrow> string option \<Rightarrow> string option \<Rightarrow> bool" where
  "round_trips convert_unit a b =
    (\<forall>v. bnd (convert_unit v a b) (\<lambda>w. convert_unit w b a) = Inr v)"

text \<open>
  Modelled from the spec: \<^verbatim>\<open>convert_unit\<close> of the module \<^verbatim>\<open>utils\<close> is not among the
  sources.  The specification has it as a pure function
  \<^verbatim>\<open>convert(value, from_unit, to_unit)\<close> that fails with an unsupported-unit error.
  The instance below is the conversion between a unit and itself, which returns the
  value as it is and therefore round-trips; it supports no other pair of units.
\<close>

definition convert_same :: "npfloat \<Rightarrow> string option \<Rightarrow> string option \<Rightarrow> error + npfloat" where
  "convert_same v unit new_unit =
    (if unit = new_unit then Inr v else Inl (ValueError ''unsupported unit''))"

section \<open>Properties of the Kappa stage\<close>

subsection \<open>Name resolution\<close>

lemma getattr_simps:
  "getattr ''kap'' x = Inl (AttributeError ''kap'')"
  "getattr ''kappa_postion'' x = Inl (AttributeError ''kappa_postion'')"
  "getattr ''checkMotorStep'' x = Inl (AttributeError ''checkMotorStep'')"
  "getattr ''E2K'' x = Inl (AttributeError ''E2K'')"
  "getattr ''eta'' x = x"
  "getattr ''phi'' x = x"
  "getattr ''e_to_k'' x = x"
  "getattr ''check_motor_step'' x = x"
  by (simp_all add: getattr_def Kappa_attrs_def)

lemma positions:
  "eta_position st = Inr (eta_wm st)"
  "kappa_position st = Inl (AttributeError ''kappa_position'')"
  "phi_position st = Inr (phi_wm st)"
  by (simp_all add: eta_position_def kappa_position_def phi_position_def property_def
      getattr_simps)

text \<open>
  \<^verbatim>\<open>k_to_e\<close> returns for no arguments at all: with the live kappa the property
  \<^verbatim>\<open>kappa_position\<close> fails, with a kappa of the caller's the local \<^verbatim>\<open>kap\<close> is unbound.
\<close>

lemma k_to_e_raises:
  "k_to_e st eta kappa phi =
     Inl (case kappa of None \<Rightarrow> AttributeError ''kappa_position''
          | Some _ \<Rightarrow> UnboundLocalError ''kap'')"
  by (simp add: k_to_e_def bnd_def positions split: option.splits)

lemma coords:
  "e_eta_coord st = Inl (AttributeError ''e_eta_coord'')"
  "e_chi_coord st = Inl (AttributeError ''e_chi_coord'')"
  "e_phi_coord st = Inl (AttributeError ''e_phi_coord'')"
  by (simp_all add: e_eta_coord_def e_chi_coord_def e_phi_coord_def k_to_e_raises bnd_def
      property_def)


subsection \<open>The round trip\<close>

text \<open>
  The arithmetic of the two conversions, at kappa = 0: what lines 398 to 409 compute from
  \<open>(eta, 0, phi)\<close>, lines 435 to 447 take back to \<open>(eta, 0, - phi)\<close>.  Line 396 negates the
  live phi only, line 446 negates every phi.
\<close>

lemma k_to_e_calc_kappa_zero:
  "k_to_e_calc kang (Fin eta) (Fin 0) (Fin phi) = (Fin (- eta), Fin 0, Fin phi)"
  by (simp add: k_to_e_calc_def rad_def deg_def np_sub_def Let_def)

lemma e_to_k_calc_chi_zero:
  assumes "sin (kang * pi / 180) \<noteq> 0"
  shows "e_to_k_calc kang (Fin e_eta) (Fin 0) (Fin e_phi) = (Fin (- e_eta), Fin 0, Fin (- e_phi))"
proof -
  have t: "np_div (Fin 0) (np_tan (Fin (kang * pi / 180))) = Fin 0"
  proof (cases "cos (kang * pi / 180) = 0")
    case True
    then show ?thesis by (simp add: np_inf_def)
  next
    case False
    then have "tan (kang * pi / 180) \<noteq> 0" using assms by (simp add: tan_def)
    with False show ?thesis by simp
  qed
  show ?thesis
    using assms t by (simp add: e_to_k_calc_def rad_def deg_def np_sub_def Let_def)
qed

lemma calc_round_trip_negates_phi:
  assumes "sin (kang * pi / 180) \<noteq> 0"
  shows "(case k_to_e_calc kang (Fin eta) (Fin 0) (Fin phi) of
            (e_eta, e_chi, e_phi) \<Rightarrow> e_to_k_calc kang e_eta e_chi e_phi)
         = (Fin eta, Fin 0, Fin (- phi))"
  using e_to_k_calc_chi_zero [OF assms, of "- eta" phi]
  by (simp add: k_to_e_calc_kappa_zero)

text \<open>
  Claim C1: \<^verbatim>\<open>e_to_k(k_to_e(eta, kappa, phi))\<close> gives back \<^verbatim>\<open>(eta, kappa, phi)\<close>.
  On the code the first conversion raises for every triple the caller passes: line 394
  binds \<^verbatim>\<open>kap\<close> only when \<^verbatim>\<open>kappa\<close> is \<^verbatim>\<open>None\<close>, and line 400 reads \<^verbatim>\<open>kap\<close>.
  The composition therefore ends in \<^verbatim>\<open>UnboundLocalError\<close> and returns no triple.
\<close>

theorem k_to_e_then_e_to_k_raises:
  "bnd (k_to_e st (Some eta) (Some kappa) (Some phi))
     (\<lambda>(e_eta, e_chi, e_phi). e_to_k st (Some e_eta) (Some e_chi) (Some e_phi))
   = Inl (UnboundLocalError ''kap'')"
  by (simp add: k_to_e_raises bnd_def)

subsection \<open>Moves in one spherical coordinate\<close>

text \<open>
  Claim C2: a move in one spherical coordinate converts the full triple with
  \<^verbatim>\<open>e_to_k\<close> and commands the three axes together.  On the code each of the three
  methods raises where it calls the conversion and leaves the device as it was:
  \<^verbatim>\<open>mv_e_eta\<close> and \<^verbatim>\<open>mv_e_chi\<close> pass the keywords \<^verbatim>\<open>eta\<close> and \<^verbatim>\<open>chi\<close>, which
  \<^verbatim>\<open>e_to_k\<close> does not have, and \<^verbatim>\<open>mv_e_phi\<close> calls \<^verbatim>\<open>self.E2K\<close>.  No axis is
  commanded by any of them.
\<close>

theorem spherical_moves_raise:
  "mv_e_eta st v = (Inl (TypeError ''eta''), st) \<and>
   mv_e_chi st v = (Inl (TypeError ''chi''), st) \<and>
   mv_e_phi st v = (Inl (AttributeError ''E2K''), st)"
  by (simp add: mv_e_eta_def mv_e_chi_def mv_e_phi_def e_to_k_kw_def getattr_simps)

subsection \<open>The step check\<close>

text \<open>
  What lines 540 to 562 decide, once the steps are there: no step above its maximum
  passes without a question, a step equal to its maximum included; a step above its
  maximum asks the operator, and any answer but \<^verbatim>\<open>y\<close> declines.
\<close>

lemma confirm_steps_within:
  "a \<le> eta_max_step st \<Longrightarrow> b \<le> kappa_max_step st \<Longrightarrow> c \<le> phi_max_step st \<Longrightarrow>
   confirm_steps st (Fin a) (Fin b) (Fin c) = (Inr True, st)"
  by (simp add: confirm_steps_def)

lemma confirm_steps_above:
  "eta_max_step st < a \<or> kappa_max_step st < b \<or> phi_max_step st < c \<Longrightarrow>
   answers st = ans # rest \<Longrightarrow>
   confirm_steps st (Fin a) (Fin b) (Fin c) = (Inr (ans = ''y''), st\<lparr>answers := rest\<rparr>)"
  by (auto simp add: confirm_steps_def)

text \<open>
  Claim C3: \<^verbatim>\<open>check_motor_step\<close> returns \<^verbatim>\<open>True\<close> at once when every step is at
  most its maximum, and asks for confirmation exactly when one is above.  On the code
  the method returns for no input: line 537 reads \<^verbatim>\<open>self.kappa_postion\<close>, a name
  that class \<^verbatim>\<open>Kappa\<close> does not define, before any step is compared.
\<close>

theorem check_motor_step_raises:
  "check_motor_step st eta kappa phi = (Inl (AttributeError ''kappa_postion''), st)"
  by (simp add: check_motor_step_def bnd_def positions getattr_simps)

text \<open>
  Claim C4: when the operator declines, \<^verbatim>\<open>check_motor_step\<close> returns \<^verbatim>\<open>False\<close> and
  no axis is commanded.  On the code a request of ten degrees in eta, five times the
  maximum step, with an operator who would answer \<^verbatim>\<open>n\<close>, raises
  \<^verbatim>\<open>AttributeError\<close> before the operator is asked: the answer is still unread.
\<close>

theorem check_motor_step_declined_raises:
  "check_motor_step
     \<lparr>eta_wm = 0, kappa_wm = 0, phi_wm = 0, eta_max_step = 2, kappa_max_step = 2,
      phi_max_step = 2, kappa_ang = 50, answers = [''n''], issued = []\<rparr>
     (Fin 10) (Fin 0) (Fin 0)
   = (Inl (AttributeError ''kappa_postion''),
     \<lparr>eta_wm = 0, kappa_wm = 0, phi_wm = 0, eta_max_step = 2, kappa_max_step = 2,
      phi_max_step = 2, kappa_ang = 50, answers = [''n''], issued = []\<rparr>)"
  by (simp add: check_motor_step_def bnd_def positions getattr_simps)

subsection \<open>Inputs outside the domain of the conversion\<close>
















subsection \<open>A target of zero for e_chi\<close>


section \<open>Properties of AggregateSignal\<close>

subsection \<open>Subscriptions\<close>

lemma attach_fold:
  "foldl (\<lambda>s signal. s\<lparr>attached := attached s @ [signal]\<rparr>) st xs = st\<lparr>attached := attached st @ xs\<rparr>"
  by (induction xs arbitrary: st) simp_all

lemma has_subscribed_update_state: "has_subscribed (snd (update_state calc st)) = has_subscribed st"
  by (simp add: update_state_def split: sum.splits)

lemma has_subscribed_read_fold:
  "has_subscribed (foldl (\<lambda>s signal. s\<lparr>cache := (cache s)(signal \<mapsto> src signal),
                                   reads := reads s @ [signal]\<rparr>) st xs) = has_subscribed st"
  by (induction xs arbitrary: st) simp_all

lemma has_subscribed_get: "has_subscribed (snd (get calc src st)) = has_subscribed st"
  by (simp add: get_def update_state_def has_subscribed_read_fold split: sum.splits prod.splits)

lemma has_subscribed_getD:
  "get calc src st = (r, st') \<Longrightarrow> has_subscribed st' = has_subscribed st"
  using has_subscribed_get [of calc src st] by simp

lemma has_subscribed_subscribe:
  "has_subscribed (snd (subscribe calc src st cb ev)) = has_subscribed st"
  by (auto simp add: subscribe_def super_subscribe_def attach_fold
      split: prod.splits sum.splits dest!: has_subscribed_getD)

text \<open>
  Claim C6: only the first value subscription attaches the handler to the source signals
  and reads them all; later subscriptions do neither.  On the code no subscription ever
  sets \<^verbatim>\<open>_has_subscribed\<close>, which line 184 tests: the flag is as it was after every
  call, and a second subscription attaches the handler to each source signal again and
  reads each of them again.
\<close>

theorem subscribe_attaches_again:
  "has_subscribed (snd (subscribe calc src st cb ev)) = has_subscribed st \<and>
   (let st1 = snd (subscribe calc0 (\<lambda>s. 5) agg0 7 None);
        st2 = snd (subscribe calc0 (\<lambda>s. 5) st1 8 None)
    in attached st1 = [0, 1] \<and> reads st1 = [0, 1] \<and>
       attached st2 = [0, 1, 0, 1] \<and> reads st2 = [0, 1, 0, 1] \<and> \<not> has_subscribed st2)"
proof
  show "has_subscribed (snd (subscribe calc src st cb ev)) = has_subscribed st"
    by (rule has_subscribed_subscribe)
  show "let st1 = snd (subscribe calc0 (\<lambda>s. 5) agg0 7 None);
        st2 = snd (subscribe calc0 (\<lambda>s. 5) st1 8 None)
    in attached st1 = [0, 1] \<and> reads st1 = [0, 1] \<and>
       attached st2 = [0, 1, 0, 1] \<and> reads st2 = [0, 1, 0, 1] \<and> \<not> has_subscribed st2"
    by (simp add: subscribe_def super_subscribe_def get_def update_state_def calc0_def
        agg0_def Let_def)
qed

subsection \<open>Change notifications\<close>

text \<open>
  When the calculation of the subclass raises, the exception leaves the handler; the
  cache slot has been written, the derived value and the observers are left alone.
\<close>

lemma run_sub_value_calc_raises:
  assumes "kw_sub_type kwargs = Some t" and "kw_obj kwargs = Some sig"
    and "kw_old_value kwargs = Some ov" and "kw_value kwargs = Some v"
    and "calc ((cache st)(sig \<mapsto> v)) = Inl e"
  shows "run_sub_value calc st kwargs = (Inl e, st\<lparr>cache := (cache st)(sig \<mapsto> v)\<rparr>)"
  using assms
  by (simp add: run_sub_value_def bnd_def lookup_kw_def insert_value_def update_state_def)

text \<open>
  Claim C7: with change suppression enabled, a channel-change notification updates the
  cache slot of that channel and recomputes the derived value; when the new derived value
  equals the previous one no observer is run, and when it differs every observer of the
  value event is run with the new and the old value.
\<close>

theorem run_sub_value_suppresses:
  assumes "update_only_on_change st"
    and "kw_sub_type kwargs = Some t" and "kw_obj kwargs = Some sig"
    and "kw_old_value kwargs = Some ov" and "kw_value kwargs = Some v"
    and "calc ((cache st)(sig \<mapsto> v)) = Inr new"
  shows "\<exists>st'. run_sub_value calc st kwargs = (Inr (), st') \<and>
           cache st' = (cache st)(sig \<mapsto> v) \<and> readback st' = new \<and>
           notified st' =
             (if new = readback st then notified st
              else notified st @ map (\<lambda>cb. (cb, new, readback st)) (observers st SUB_VALUE))"
  using assms
  by (simp add: run_sub_value_def bnd_def lookup_kw_def insert_value_def update_state_def
      run_subs_def observers_def Let_def)

theorem run_sub_value_suppresses_witness:
  "(\<exists>st'. run_sub_value calc0 agg1
       \<lparr>kw_sub_type = Some ''value'', kw_obj = Some 0, kw_old_value = Some 1, kw_value = Some 4\<rparr> = (Inr (), st') \<and>
       cache st' = [0 \<mapsto> 4, 1 \<mapsto> 2] \<and> readback st' = 4 \<and> notified st' = [(7, 4, 1), (8, 4, 1)]) \<and>
   (\<exists>st'. run_sub_value calc0 agg1
       \<lparr>kw_sub_type = Some ''value'', kw_obj = Some 1, kw_old_value = Some 2, kw_value = Some 3\<rparr> = (Inr (), st') \<and>
       cache st' = [0 \<mapsto> 1, 1 \<mapsto> 3] \<and> readback st' = 1 \<and> notified st' = [])"
proof
  have c: "calc0 ((cache agg1)(0 \<mapsto> 4)) = Inr 4" by (simp add: calc0_def agg1_def)
  have m: "(cache agg1)(0 \<mapsto> 4) = [0 \<mapsto> 4, 1 \<mapsto> 2]" by (auto simp add: agg1_def)
  show "\<exists>st'. run_sub_value calc0 agg1
       \<lparr>kw_sub_type = Some ''value'', kw_obj = Some 0, kw_old_value = Some 1, kw_value = Some 4\<rparr> = (Inr (), st') \<and>
       cache st' = [0 \<mapsto> 4, 1 \<mapsto> 2] \<and> readback st' = 4 \<and> notified st' = [(7, 4, 1), (8, 4, 1)]"
    using run_sub_value_suppresses [of agg1 "\<lparr>kw_sub_type = Some ''value'', kw_obj = Some 0, kw_old_value = Some 1, kw_value = Some 4\<rparr>"
        "''value''" 0 1 4 calc0 4, OF _ _ _ _ _ c] m
    by (simp add: agg1_def observers_def SUB_VALUE_def)
next
  have c: "calc0 ((cache agg1)(1 \<mapsto> 3)) = Inr 1" by (simp add: calc0_def agg1_def)
  have m: "(cache agg1)(1 \<mapsto> 3) = [0 \<mapsto> 1, 1 \<mapsto> 3]" by (auto simp add: agg1_def)
  show "\<exists>st'. run_sub_value calc0 agg1
       \<lparr>kw_sub_type = Some ''value'', kw_obj = Some 1, kw_old_value = Some 2, kw_value = Some 3\<rparr> = (Inr (), st') \<and>
       cache st' = [0 \<mapsto> 1, 1 \<mapsto> 3] \<and> readback st' = 1 \<and> notified st' = []"
    using run_sub_value_suppresses [of agg1 "\<lparr>kw_sub_type = Some ''value'', kw_obj = Some 1, kw_old_value = Some 2, kw_value = Some 3\<rparr>"
        "''value''" 1 2 3 calc0 1, OF _ _ _ _ _ c] m
    by (simp add: agg1_def observers_def SUB_VALUE_def)
qed


section \<open>Properties of AvgSignal\<close>





lemma mean_rotate: "mean (zs @ ys) = mean (ys @ zs)"
  by (simp add: mean_def add.commute)






lemma feed_append: "feed st (vs @ ws) = bnd (feed st vs) (\<lambda>st'. feed st' ws)"
  by (induction vs arbitrary: st) (simp_all add: bnd_def split: sum.splits)




section \<open>Properties of UnitConversionDerivedSignal\<close>

subsection \<open>Rounding to a double\<close>

lemma rne_of_int: "rne (of_int m) = m"
  by (simp add: rne_def)

lemma ulp_pos: "0 < ulp r"
  by (simp add: ulp_def)

lemma powr_int_add: "(2::real) powr of_int a * 2 powr of_int b = 2 powr of_int (a + b)"
  by (simp add: powr_add)

lemma powr_int_nat: "0 \<le> k \<Longrightarrow> (2::real) powr of_int k = 2 ^ nat k"
  by (simp add: powr_real_of_int)

lemma pow2_neg: "(2::real) powr (- real k) = 1 / 2 ^ k"
  by (simp add: powr_minus_divide powr_realpow)

text \<open>
  Every number \<open>m * 2 ^ e\<close> with \<open>|m| < 2 ^ 53\<close> and \<open>e \<ge> -1074\<close> is left alone by
  rounding.
\<close>

lemma fl_exact:
  assumes "\<bar>m\<bar> < 2 ^ 53" "- 1074 \<le> e"
  shows "fl (of_int m * 2 powr of_int e) = of_int m * 2 powr of_int e"
proof (cases "m = 0")
  case True
  then show ?thesis by (simp add: fl_def)
next
  case False
  let ?r = "of_int m * 2 powr of_int e :: real"
  have r0: "?r \<noteq> 0" using False by simp
  have abs: "\<bar>?r\<bar> = of_int \<bar>m\<bar> * 2 powr of_int e" by (simp add: abs_mult)
  have "of_int \<bar>m\<bar> < (2::real) ^ 53" using assms(1) by (metis of_int_less_numeral_power_cancel_iff)
  then have "of_int \<bar>m\<bar> < (2::real) powr of_int 53" by (simp add: powr_real_of_int)
  then have "\<bar>?r\<bar> < 2 powr of_int 53 * 2 powr of_int e" unfolding abs by simp
  then have lt: "\<bar>?r\<bar> < 2 powr of_int (53 + e)" by (simp only: powr_int_add)
  have "log 2 \<bar>?r\<bar> < of_int (53 + e)"
    using lt r0 by (subst log_less_iff) simp_all
  then have "\<lfloor>log 2 \<bar>?r\<bar>\<rfloor> < 53 + e" by (simp add: floor_less_iff)
  then have u: "max (\<lfloor>log 2 \<bar>?r\<bar>\<rfloor> - 52) (- 1074) \<le> e" using assms(2) by simp
  define u where "u = max (\<lfloor>log 2 \<bar>?r\<bar>\<rfloor> - 52) (- 1074)"
  have ulp: "ulp ?r = 2 powr of_int u" by (simp add: ulp_def u_def)
  have ue: "0 \<le> e - u" using u by (simp add: u_def)
  have "?r / ulp ?r = of_int m * 2 powr of_int (e - u)"
    unfolding ulp by (simp add: powr_diff)
  also have "\<dots> = of_int (m * 2 ^ nat (e - u))"
    by (simp only: powr_int_nat [OF ue] of_int_mult of_int_power of_int_numeral)
  finally have q: "?r / ulp ?r = of_int (m * 2 ^ nat (e - u))" .
  have "fl ?r = of_int (rne (?r / ulp ?r)) * ulp ?r" using r0 by (simp only: fl_def if_False)
  also have "\<dots> = of_int (m * 2 ^ nat (e - u)) * ulp ?r"
    by (simp only: q rne_of_int)
  also have "\<dots> = of_int (m * 2 ^ nat (e - u)) * 2 powr of_int u"
    by (simp only: ulp)
  also have "\<dots> = of_int m * (2 powr of_int (e - u) * 2 powr of_int u)"
    by (simp only: powr_int_nat [OF ue] of_int_mult of_int_power of_int_numeral mult.assoc)
  also have "2 powr of_int (e - u) * 2 powr of_int u = (2::real) powr of_int e"
    by (simp only: powr_int_add) simp
  finally show ?thesis .
qed


lemma py_round_exact:
  assumes "\<bar>m\<bar> < 2 ^ 53" "- 1074 \<le> e" "e \<le> 971"
  shows "py_round (Fin (of_int m * 2 powr of_int e)) = Fin (of_int m * 2 powr of_int e)"
proof -
  let ?r = "of_int m * 2 powr of_int e :: real"
  have "of_int \<bar>m\<bar> < (2::real) ^ 53" using assms(1) by (metis of_int_less_numeral_power_cancel_iff)
  then have "of_int \<bar>m\<bar> < (2::real) powr of_int 53" by (simp add: powr_real_of_int)
  then have "\<bar>?r\<bar> < 2 powr of_int 53 * 2 powr of_int e" by (simp add: abs_mult)
  then have "\<bar>?r\<bar> < 2 powr of_int (53 + e)" by (simp only: powr_int_add)
  also have "\<dots> \<le> 2 powr of_int 1024" using assms(3) by (subst powr_le_cancel_iff) simp_all
  also have "\<dots> = 2 ^ 1024" by (simp add: powr_real_of_int)
  finally have "\<not> 2 ^ 1024 \<le> \<bar>?r\<bar>" by simp
  then show ?thesis by (simp only: py_round.simps fl_exact [OF assms(1,2)] if_False)
qed

lemma is_double_int: "\<bar>m\<bar> < 2 ^ 53 \<Longrightarrow> is_double (of_int m)"
  using py_round_exact [of m 0] by (simp add: is_double_def)

lemma is_double_examples: "is_double 0" "is_double 1" "is_double 5" "is_double (1 / 2 ^ 60)"
proof -
  show "is_double 0" using is_double_int [of 0] by simp
  show "is_double 1" using is_double_int [of 1] by simp
  show "is_double 5" using is_double_int [of 5] by simp
  have "(1::real) / 2 ^ 60 = of_int 1 * 2 powr of_int (- 60)"
    using pow2_neg [of 60] by simp
  moreover have "py_round (Fin (of_int 1 * 2 powr of_int (- 60))) = Fin (of_int 1 * 2 powr of_int (- 60))"
    by (rule py_round_exact) simp_all
  ultimately show "is_double (1 / 2 ^ 60)"
    unfolding is_double_def by (simp only:)
qed

lemma floor_log2_half_one:
  assumes "1 / 2 \<le> y" "y < 1"
  shows "\<lfloor>log 2 y\<rfloor> = - 1"
proof (rule floor_unique)
  have "2 powr (- 1) \<le> y" using assms(1) by (simp add: powr_minus_divide)
  then show "of_int (- 1) \<le> log 2 y" using assms(1) by (subst le_log_iff) simp_all
  have "log 2 y < 0" using assms by (subst log_less_zero_cancel_iff) simp_all
  then show "log 2 y < of_int (- 1) + 1" by simp
qed

lemma fl_cancel: "fl (1 / 2 ^ 60 - 1) = - 1"
proof -
  let ?r = "1 / 2 ^ 60 - 1 :: real"
  have a: "\<bar>?r\<bar> = 1 - 1 / 2 ^ 60" by simp
  have k: "\<lfloor>log 2 \<bar>?r\<bar>\<rfloor> = - 1" unfolding a by (rule floor_log2_half_one) simp_all
  have u: "ulp ?r = 1 / 2 ^ 53" unfolding ulp_def k using pow2_neg [of 53] by simp
  have q: "?r / ulp ?r = of_int (- (2 ^ 53)) + 1 / 2 ^ 7" unfolding u by simp
  have f: "\<lfloor>?r / ulp ?r\<rfloor> = - (2 ^ 53)" unfolding q by (rule floor_unique) simp_all
  have "rne (?r / ulp ?r) = - (2 ^ 53)"
    unfolding rne_def f Let_def unfolding q by simp
  then have "fl ?r = of_int (- (2 ^ 53)) * (1 / 2 ^ 53)"
    unfolding fl_def u by simp
  then show ?thesis by simp
qed


text \<open>The error of one rounding: half a unit in the last place.\<close>

lemma rne_error: "\<bar>of_int (rne q) - q\<bar> \<le> 1 / 2"
proof -
  define d where "d = q - of_int \<lfloor>q\<rfloor>"
  have d: "0 \<le> d" "d < 1" unfolding d_def by linarith+
  have q: "q = of_int \<lfloor>q\<rfloor> + d" by (simp add: d_def)
  have "rne q = (if d < 1 / 2 then \<lfloor>q\<rfloor> else if 1 / 2 < d then \<lfloor>q\<rfloor> + 1
                 else if even \<lfloor>q\<rfloor> then \<lfloor>q\<rfloor> else \<lfloor>q\<rfloor> + 1)"
    unfolding rne_def Let_def d_def ..
  then have "rne q = \<lfloor>q\<rfloor> \<and> d \<le> 1 / 2 \<or> rne q = \<lfloor>q\<rfloor> + 1 \<and> 1 / 2 \<le> d"
    by (auto split: if_splits)
  then have "of_int (rne q) - q = - d \<and> d \<le> 1 / 2 \<or> of_int (rne q) - q = 1 - d \<and> 1 / 2 \<le> d"
    by (auto simp add: d_def)
  with d show ?thesis by (auto simp add: abs_if)
qed

lemma ulp_le:
  assumes "r \<noteq> 0"
  shows "ulp r \<le> \<bar>r\<bar> / 2 ^ 52 + 2 powr (- 1074)"
proof -
  note False = assms
  define k where "k = \<lfloor>log 2 \<bar>r\<bar>\<rfloor>"
  have "of_int k \<le> log 2 \<bar>r\<bar>" by (simp add: k_def)
  then have "2 powr of_int k \<le> \<bar>r\<bar>" using False by (subst (asm) le_log_iff) simp_all
  then have "2 powr of_int k / 2 ^ 52 \<le> \<bar>r\<bar> / 2 ^ 52" by (simp add: divide_right_mono)
  moreover have "(2::real) powr of_int (k - 52) = 2 powr of_int k / 2 ^ 52"
    by (simp add: powr_diff)
  ultimately have a: "2 powr of_int (k - 52) \<le> \<bar>r\<bar> / 2 ^ 52" by simp
  have "ulp r = max (2 powr of_int (k - 52)) (2 powr of_int (- 1074))"
    unfolding ulp_def k_def [symmetric] by (simp add: max_def)
  also have "\<dots> \<le> \<bar>r\<bar> / 2 ^ 52 + 2 powr (- 1074)"
    using a by (simp add: max_def add_nonneg_nonneg add_increasing add_increasing2)
  finally show ?thesis .
qed

lemma fl_error: "\<bar>fl r - r\<bar> \<le> \<bar>r\<bar> / 2 ^ 53 + 2 powr (- 1075)"
proof (cases "r = 0")
  case True
  then show ?thesis by (simp add: fl_def)
next
  case False
  have u: "0 < ulp r" by (rule ulp_pos)
  have "fl r - r = (of_int (rne (r / ulp r)) - r / ulp r) * ulp r"
    using False u by (simp add: fl_def field_simps)
  then have "\<bar>fl r - r\<bar> = \<bar>of_int (rne (r / ulp r)) - r / ulp r\<bar> * ulp r"
    using u by (simp add: abs_mult)
  also have "\<dots> \<le> 1 / 2 * ulp r"
    using rne_error [of "r / ulp r"] u by (intro mult_right_mono) simp_all
  also have "\<dots> \<le> 1 / 2 * (\<bar>r\<bar> / 2 ^ 52 + 2 powr (- 1074))"
    using ulp_le [OF False] by simp
  also have "\<dots> = \<bar>r\<bar> / 2 ^ 53 + 2 powr (- 1075)"
  proof -
    have "(2::real) powr (- 1075) = 2 powr (- 1074) / 2"
      using powr_diff [of "2::real" "- 1074" 1] by simp
    then show ?thesis by simp
  qed
  finally show ?thesis .
qed


lemma py_round_Fin: "py_round (Fin r) = Fin a \<Longrightarrow> a = fl r"
  by (simp add: np_inf_def split: if_splits)

lemma pow2_m1073: "(2::real) powr (- 1073) = 4 * 2 powr (- 1075)"
proof -
  have "(2::real) powr (- 1075 + 2) = 2 powr (- 1075) * 2 powr 2" by (rule powr_add)
  moreover have "(2::real) powr 2 = 4" by simp
  moreover have "(- 1075 + 2 :: real) = - 1073" by simp
  ultimately show ?thesis by (simp only: mult.commute)
qed

lemma offset_error_arith:
  fixes A B C D M h u Y :: real
  assumes "0 < h" "0 \<le> u" "u \<le> 1 / 10 ^ 10" "0 \<le> M"
    and e1: "A \<le> D * u + h" and e2: "C \<le> B * u + h"
    and d: "D \<le> 2 * M" and s: "B \<le> M + A" and t: "Y \<le> C + A"
  shows "Y \<le> M / 10 ^ 9 + 4 * h"
proof -
  have "D * u \<le> 2 * M * u" using d assms(2) by (rule mult_right_mono)
  also have "\<dots> \<le> 2 * M * (1 / 10 ^ 10)"
    using assms(3,4) by (intro mult_left_mono) simp_all
  finally have e1': "A \<le> 2 * M / 10 ^ 10 + h" using e1 by simp
  have s': "B \<le> 2 * M + h" using s e1' assms(4) by simp
  have "B * u \<le> (2 * M + h) * u" using s' assms(2) by (rule mult_right_mono)
  also have "\<dots> \<le> (2 * M + h) * (1 / 10 ^ 10)"
    using assms(1,3,4) by (intro mult_left_mono) simp_all
  finally have e2': "C \<le> 2 * M / 10 ^ 10 + h / 10 ^ 10 + h"
    using e2 by (simp add: distrib_right)
  show ?thesis using t e1' e2' assms(1,4) by simp
qed

lemma offset_error:
  assumes a: "a = fl (x - off)" and y: "y = fl (a + off)"
  shows "\<bar>y - x\<bar> \<le> max \<bar>x\<bar> \<bar>off\<bar> / 10 ^ 9 + 2 powr (- 1073)"
proof -
  have "\<bar>y - x\<bar> \<le> max \<bar>x\<bar> \<bar>off\<bar> / 10 ^ 9 + 4 * 2 powr (- 1075)"
  proof (rule offset_error_arith [where u = "1 / 2 ^ 53" and A = "\<bar>a - (x - off)\<bar>"
        and B = "\<bar>a + off\<bar>" and C = "\<bar>y - (a + off)\<bar>" and D = "\<bar>x - off\<bar>"])
    show "0 < (2::real) powr (- 1075)" by simp
    show "0 \<le> (1::real) / 2 ^ 53" by simp
    show "(1::real) / 2 ^ 53 \<le> 1 / 10 ^ 10" by simp
    show "0 \<le> max \<bar>x\<bar> \<bar>off\<bar>" by simp
    show "\<bar>a - (x - off)\<bar> \<le> \<bar>x - off\<bar> * (1 / 2 ^ 53) + 2 powr (- 1075)"
      unfolding a using fl_error [of "x - off"] by simp
    show "\<bar>y - (a + off)\<bar> \<le> \<bar>a + off\<bar> * (1 / 2 ^ 53) + 2 powr (- 1075)"
      unfolding y using fl_error [of "a + off"] by simp
    show "\<bar>x - off\<bar> \<le> 2 * max \<bar>x\<bar> \<bar>off\<bar>" by linarith
    show "\<bar>a + off\<bar> \<le> max \<bar>x\<bar> \<bar>off\<bar> + \<bar>a - (x - off)\<bar>" by linarith
    show "\<bar>y - x\<bar> \<le> \<bar>y - (a + off)\<bar> + \<bar>a - (x - off)\<bar>" by linarith
  qed
  then show ?thesis by (simp only: pow2_m1073)
qed

subsection \<open>The two conversions\<close>

lemma round_tripsD:
  assumes "round_trips convert_unit a b"
  obtains w where "convert_unit v a b = Inr w" "convert_unit w b a = Inr v"
proof -
  from assms have "bnd (convert_unit v a b) (\<lambda>w. convert_unit w b a) = Inr v"
    by (simp add: round_trips_def)
  then show ?thesis using that by (cases "convert_unit v a b") (simp_all add: bnd_def)
qed

lemma round_trips_same: "round_trips convert_same u u"
  by (simp add: round_trips_def convert_same_def bnd_def)

lemma inverse_forward_exact:
  assumes off: "user_offset st = Some (Fin off)"
    and rt: "round_trips convert_unit (Some (derived_units st)) (original_units st)"
    and x: "is_double x" and s: "py_sub (Fin x) (Fin off) = Fin (x - off)"
  shows "bnd (forward convert_unit st (Fin x)) (inverse_conv convert_unit st) = Inr (Fin x)"
proof -
  from rt obtain w where
    w: "convert_unit (Fin (x - off)) (Some (derived_units st)) (original_units st) = Inr w"
       "convert_unit w (original_units st) (Some (derived_units st)) = Inr (Fin (x - off))"
    by (rule round_tripsD)
  have "py_add (Fin (x - off)) (Fin off) = Fin x"
    using x by (simp add: py_add_def is_double_def)
  then show ?thesis
    by (simp add: forward_def inverse_conv_def off s w bnd_def)
qed

lemma forward_inverse_exact:
  assumes off: "user_offset st = Some (Fin off)"
    and rt: "round_trips convert_unit (original_units st) (Some (derived_units st))"
    and c: "convert_unit (Fin x) (original_units st) (Some (derived_units st)) = Inr (Fin c)"
    and d: "is_double c" and s: "py_add (Fin c) (Fin off) = Fin (c + off)"
  shows "bnd (inverse_conv convert_unit st (Fin x)) (forward convert_unit st) = Inr (Fin x)"
proof -
  from rt obtain w where
    w: "convert_unit (Fin x) (original_units st) (Some (derived_units st)) = Inr w"
       "convert_unit w (Some (derived_units st)) (original_units st) = Inr (Fin x)"
    by (rule round_tripsD)
  with c have w': "convert_unit (Fin c) (Some (derived_units st)) (original_units st) = Inr (Fin x)"
    by simp
  have "py_sub (Fin (c + off)) (Fin off) = Fin c"
    using d by (simp add: py_sub_def np_sub_def is_double_def)
  then show ?thesis
    by (simp add: forward_def inverse_conv_def off s c w' bnd_def)
qed

lemma py_sub_Fin: "py_sub (Fin x) (Fin y) = py_round (Fin (x - y))"
  by (simp add: py_sub_def np_sub_def del: py_round.simps)

lemma py_add_Fin: "py_add (Fin x) (Fin y) = py_round (Fin (x + y))"
  by (simp add: py_add_def del: py_round.simps)

lemma inverse_forward_bound:
  assumes off: "user_offset st = Some (Fin off)"
    and rt: "round_trips convert_unit (Some (derived_units st)) (original_units st)"
    and s: "py_sub (Fin x) (Fin off) = Fin a" and t: "py_add (Fin a) (Fin off) = Fin y"
  shows "bnd (forward convert_unit st (Fin x)) (inverse_conv convert_unit st) = Inr (Fin y) \<and>
         \<bar>y - x\<bar> \<le> max \<bar>x\<bar> \<bar>off\<bar> / 10 ^ 9 + 2 powr (- 1073)"
proof
  from rt obtain w where
    w: "convert_unit (Fin a) (Some (derived_units st)) (original_units st) = Inr w"
       "convert_unit w (original_units st) (Some (derived_units st)) = Inr (Fin a)"
    by (rule round_tripsD)
  show "bnd (forward convert_unit st (Fin x)) (inverse_conv convert_unit st) = Inr (Fin y)"
    by (simp add: forward_def inverse_conv_def off s t w bnd_def)
  have "py_round (Fin (x - off)) = Fin a" using s by (simp only: py_sub_Fin)
  then have "a = fl (x - off)" by (rule py_round_Fin)
  moreover have "py_round (Fin (a + off)) = Fin y" using t by (simp only: py_add_Fin)
  then have "y = fl (a + off)" by (rule py_round_Fin)
  ultimately show "\<bar>y - x\<bar> \<le> max \<bar>x\<bar> \<bar>off\<bar> / 10 ^ 9 + 2 powr (- 1073)"
    by (rule offset_error)
qed

lemma py_round_0: "py_round (Fin 0) = Fin 0"
  by (simp add: fl_def)

text \<open>
  Claim C9, as stated: for every value, every offset and a conversion primitive that
  round-trips, \<^verbatim>\<open>inverse(forward(x))\<close> is \<open>x\<close> within a relative tolerance of 1e-9.
  With the offset 1 and \<open>x = 2 ^ -60\<close>, both doubles, \<open>x - 1\<close> rounds to \<open>-1\<close> and the
  way back gives 0: the error is all of \<open>x\<close>.
\<close>

theorem unit_conversion_counterexample:
  "round_trips convert_same (Some ''mm'') (Some ''mm'') \<and>
   is_double (1 / 2 ^ 60) \<and> is_double 1 \<and>
   bnd (forward convert_same
          \<lparr>derived_units = ''mm'', original_units = Some ''mm'', user_offset = Some (Fin 1)\<rparr>
          (Fin (1 / 2 ^ 60)))
       (inverse_conv convert_same
          \<lparr>derived_units = ''mm'', original_units = Some ''mm'', user_offset = Some (Fin 1)\<rparr>)
     = Inr (Fin 0) \<and>
   \<not> \<bar>0 - 1 / 2 ^ 60\<bar> \<le> 1 / 10 ^ 9 * \<bar>1 / 2 ^ 60 :: real\<bar>"
proof (intro conjI)
  show "round_trips convert_same (Some ''mm'') (Some ''mm'')" by (rule round_trips_same)
  show "is_double (1 / 2 ^ 60)" "is_double 1" by (rule is_double_examples)+
  define x :: real where "x = 1 / 2 ^ 60"
  have s: "py_sub (Fin x) (Fin 1) = Fin (- 1)"
    unfolding x_def py_sub_def np_sub_def np_neg.simps np_add.simps
    using fl_cancel by (simp only: py_round.simps) simp
  have a: "py_add (Fin (- 1)) (Fin 1) = Fin 0"
    by (simp add: py_add_def py_round_0 del: py_round.simps)
  have "bnd (forward convert_same
          \<lparr>derived_units = ''mm'', original_units = Some ''mm'', user_offset = Some (Fin 1)\<rparr>
          (Fin x))
       (inverse_conv convert_same
          \<lparr>derived_units = ''mm'', original_units = Some ''mm'', user_offset = Some (Fin 1)\<rparr>)
     = Inr (Fin 0)"
    by (simp add: forward_def inverse_conv_def s a convert_same_def bnd_def)
  then show "bnd (forward convert_same
          \<lparr>derived_units = ''mm'', original_units = Some ''mm'', user_offset = Some (Fin 1)\<rparr>
          (Fin (1 / 2 ^ 60)))
       (inverse_conv convert_same
          \<lparr>derived_units = ''mm'', original_units = Some ''mm'', user_offset = Some (Fin 1)\<rparr>)
     = Inr (Fin 0)"
    unfolding x_def .
  show "\<not> \<bar>0 - 1 / 2 ^ 60\<bar> \<le> 1 / 10 ^ 9 * \<bar>1 / 2 ^ 60 :: real\<bar>" by simp
qed

text \<open>
  Claim C9, amended: with a conversion primitive that round-trips, each of the two
  compositions gives \<open>x\<close> back exactly whenever the subtraction and the addition of the
  offset are exact in double arithmetic; and whenever neither of them overflows,
  \<^verbatim>\<open>inverse(forward(x))\<close> is within \<open>1e-9 * max(|x|, |offset|) + 2 ^ -1073\<close> of \<open>x\<close>.
\<close>

theorem unit_conversion_round_trip:
  assumes "user_offset st = Some (Fin off)"
    and "round_trips convert_unit (Some (derived_units st)) (original_units st)"
    and "round_trips convert_unit (original_units st) (Some (derived_units st))"
  shows "(is_double x \<and> py_sub (Fin x) (Fin off) = Fin (x - off) \<longrightarrow>
            bnd (forward convert_unit st (Fin x)) (inverse_conv convert_unit st) = Inr (Fin x)) \<and>
         (convert_unit (Fin x) (original_units st) (Some (derived_units st)) = Inr (Fin c) \<and>
            is_double c \<and> py_add (Fin c) (Fin off) = Fin (c + off) \<longrightarrow>
            bnd (inverse_conv convert_unit st (Fin x)) (forward convert_unit st) = Inr (Fin x)) \<and>
         (py_sub (Fin x) (Fin off) = Fin a \<and> py_add (Fin a) (Fin off) = Fin y \<longrightarrow>
            bnd (forward convert_unit st (Fin x)) (inverse_conv convert_unit st) = Inr (Fin y) \<and>
            \<bar>y - x\<bar> \<le> max \<bar>x\<bar> \<bar>off\<bar> / 10 ^ 9 + 2 powr (- 1073))"
  using assms inverse_forward_exact forward_inverse_exact inverse_forward_bound by blast

theorem unit_conversion_round_trip_witness:
  "bnd (forward convert_same
          \<lparr>derived_units = ''mm'', original_units = Some ''mm'', user_offset = Some (Fin 3)\<rparr> (Fin 5))
       (inverse_conv convert_same
          \<lparr>derived_units = ''mm'', original_units = Some ''mm'', user_offset = Some (Fin 3)\<rparr>)
     = Inr (Fin 5) \<and>
   bnd (inverse_conv convert_same
          \<lparr>derived_units = ''mm'', original_units = Some ''mm'', user_offset = Some (Fin 3)\<rparr> (Fin 5))
       (forward convert_same
          \<lparr>derived_units = ''mm'', original_units = Some ''mm'', user_offset = Some (Fin 3)\<rparr>)
     = Inr (Fin 5) \<and>
   bnd (forward convert_same
          \<lparr>derived_units = ''mm'', original_units = Some ''mm'', user_offset = Some (Fin 1)\<rparr>
          (Fin (1 / 2 ^ 60)))
       (inverse_conv convert_same
          \<lparr>derived_units = ''mm'', original_units = Some ''mm'', user_offset = Some (Fin 1)\<rparr>)
     = Inr (Fin 0) \<and>
   \<bar>0 - 1 / 2 ^ 60\<bar> \<le> max \<bar>1 / 2 ^ 60\<bar> \<bar>1\<bar> / 10 ^ 9 + (2::real) powr (- 1073)"
proof -
  let ?st = "\<lparr>derived_units = ''mm'', original_units = Some ''mm'', user_offset = Some (Fin 3)\<rparr>"
  let ?su = "\<lparr>derived_units = ''mm'', original_units = Some ''mm'', user_offset = Some (Fin 1)\<rparr>"
  define z :: real where "z = 1 / 2 ^ 60"
  have d: "is_double 5" "is_double 2" "is_double 8"
    using is_double_int [of 5] is_double_int [of 2] is_double_int [of 8] by simp_all
  have s: "py_sub (Fin 5) (Fin 3) = Fin (5 - 3)"
    using d(2) by (simp add: py_sub_Fin is_double_def del: py_round.simps)
  have a: "py_add (Fin 5) (Fin 3) = Fin (5 + 3)"
    using d(3) by (simp add: py_add_Fin is_double_def del: py_round.simps)
  have c: "convert_same (Fin 5) (original_units ?st) (Some (derived_units ?st)) = Inr (Fin 5)"
    by (simp add: convert_same_def)
  have r: "round_trips convert_same (Some (derived_units ?st)) (original_units ?st)"
    "round_trips convert_same (original_units ?st) (Some (derived_units ?st))"
    by (simp_all add: round_trips_same)
  have r': "round_trips convert_same (Some (derived_units ?su)) (original_units ?su)"
    "round_trips convert_same (original_units ?su) (Some (derived_units ?su))"
    by (simp_all add: round_trips_same)
  have s': "py_sub (Fin z) (Fin 1) = Fin (- 1)"
    unfolding z_def py_sub_Fin using fl_cancel by (simp only: py_round.simps) simp
  have a': "py_add (Fin (- 1)) (Fin 1) = Fin 0"
    by (simp add: py_add_Fin py_round_0 del: py_round.simps)
  from unit_conversion_round_trip [of ?st 3 convert_same 5 5 2 5, OF _ r] d(1) s a c
  have one: "bnd (forward convert_same ?st (Fin 5)) (inverse_conv convert_same ?st) = Inr (Fin 5) \<and>
     bnd (inverse_conv convert_same ?st (Fin 5)) (forward convert_same ?st) = Inr (Fin 5)"
    by simp
  from unit_conversion_round_trip [of ?su 1 convert_same z 0 "- 1" 0, OF _ r'] s' a'
  have "bnd (forward convert_same ?su (Fin z)) (inverse_conv convert_same ?su) = Inr (Fin 0) \<and>
     \<bar>0 - z\<bar> \<le> max \<bar>z\<bar> \<bar>1\<bar> / 10 ^ 9 + (2::real) powr (- 1073)"
    by simp
  with one show ?thesis unfolding z_def by (simp only:) 
qed

end
